theory Spec2Isabelle
  imports Complex_Main
begin

section \<open>Data exchanged with the backend (AudioChatbot.tsx, lines 7-17)\<close>

text \<open>
  A JavaScript \<open>number\<close> is only carried from the response body to the screen: the
  component never computes with it, so any carrier type does.
\<close>

type_synonym number = real

text \<open>The field \<open>result: number | string\<close> of \<open>MathOperation\<close>.\<close>

datatype result_value = Number_result number | String_result string

record MathOperation =
  num1 :: number
  operator :: string
  num2 :: number
  result :: result_value

record ApiResponse =
  text_response :: string
  math_operation :: "MathOperation option"

text \<open>
  What the HTTP client hands over as \<open>result.data\<close>. The type parameter \<open>ApiResponse\<close>
  of \<open>axios.post\<close> is erased at run time and nothing checks the value: the body of an
  answer is \<open>null\<close>, an object, or, when it is not JSON, the text as it came. A nullable
  value is an \<open>option\<close>, so \<open>null\<close> is \<open>None\<close>. A property read on a string gives
  \<open>undefined\<close>, on \<open>null\<close> it throws.
\<close>

datatype body = Raw string | Parsed ApiResponse

datatype js_error = TypeError string | ReferenceError string

section \<open>Platform objects\<close>

text \<open>
  A chunk handed to \<open>ondataavailable\<close> is a run of bytes. \<open>new Blob(parts, {type})\<close>
  concatenates the parts in order and tags the result with the media type.
\<close>

type_synonym BlobPart = string

record Blob =
  content :: string
  blob_type :: string

definition Blob_new :: "BlobPart list \<Rightarrow> string \<Rightarrow> Blob" where
  "Blob_new parts ty = \<lparr>content = concat parts, blob_type = ty\<rparr>"

text \<open>
  A \<open>MediaRecorder\<close> knows the stream it records and is either inactive or recording.
  Streams and recorders are objects of the browser; the component reaches them through
  references, modelled as indices into two stores.
\<close>

datatype RecordingState = inactive | recording

record MediaRecorder =
  stream :: nat
  state :: RecordingState

record HTMLAudioElement =
  paused :: bool
  src :: string

text \<open>The multipart request of \<open>handleSubmit\<close>: one form field holding the blob.\<close>

record request =
  endpoint :: string
  field :: string
  payload :: Blob
  content_type :: string
  withCredentials :: bool

text \<open>What an awaited promise settles with.\<close>

datatype 'a settled = Fulfilled 'a | Rejected string

section \<open>The state of one mounted component\<close>

text \<open>
  The first four fields are the state and refs of \<open>useAudioRecorder\<close> (lines 21-24), the
  next four those of \<open>AudioChatbot\<close> (lines 85-89). The remaining fields are the part of
  the browser the component acts on: the recorder objects, for every stream whether its
  tracks are still live, the \<open>getUserMedia\<close> calls and POST requests that have not
  settled yet, the recorders whose \<open>stop\<close> event is still to be delivered, and what has
  been written to the console and passed to speech synthesis.
\<close>

record component =
  isRecording :: bool
  audioBlob :: "Blob option"
  mediaRecorder :: "nat option"
  chunks :: "BlobPart list"
  response :: "body option"
  isProcessing :: bool
  error :: "string option"
  audioPlayer :: "HTMLAudioElement option"
  recorders :: "MediaRecorder list"
  tracks_live :: "bool list"
  gum_pending :: nat
  stop_pending :: "nat list"
  requests :: "request list"
  in_flight :: nat
  console :: "(string \<times> string) list"
  spoken :: "string list"

text \<open>The values of \<open>useState\<close> and \<open>useRef\<close> at the first render.\<close>

definition initial :: component where
  "initial = \<lparr>isRecording = False, audioBlob = None, mediaRecorder = None, chunks = [],
     response = None, isProcessing = False, error = None, audioPlayer = None,
     recorders = [], tracks_live = [], gum_pending = 0, stop_pending = [],
     requests = [], in_flight = 0, console = [], spoken = []\<rparr>"

text \<open>The effect of lines 91-93, run once after the first render.\<close>

definition mount :: "component \<Rightarrow> component" where
  "mount s = s\<lparr>audioPlayer := Some \<lparr>paused = True, src = []\<rparr>\<rparr>"

definition mounted :: component where
  "mounted = mount initial"

section \<open>useAudioRecorder (lines 20-59)\<close>

subsection \<open>Calls into the browser\<close>

text \<open>
  \<open>getUserMedia\<close> returns a promise; the call itself only leaves a request pending.
\<close>

definition getUserMedia :: "component \<Rightarrow> component" where
  "getUserMedia s = s\<lparr>gum_pending := Suc (gum_pending s)\<rparr>"

text \<open>
  \<open>new MediaRecorder(stream)\<close>: a fresh inactive recorder; its reference is returned.
  Every reference comes from here, so it is an index in range; \<open>start\<close> and \<open>stop\<close> do
  nothing on an index that is not.
\<close>

definition MediaRecorder_new :: "nat \<Rightarrow> component \<Rightarrow> nat \<times> component" where
  "MediaRecorder_new st s =
     (length (recorders s), s\<lparr>recorders := recorders s @ [\<lparr>stream = st, state = inactive\<rparr>]\<rparr>)"

definition MediaRecorder_start :: "nat \<Rightarrow> component \<Rightarrow> component" where
  "MediaRecorder_start rid s =
     (if rid < length (recorders s)
      then s\<lparr>recorders := (recorders s)[rid := (recorders s ! rid)\<lparr>state := recording\<rparr>]\<rparr>
      else s)"

text \<open>
  \<open>stop()\<close> on a recording recorder makes it inactive at once and queues its last
  \<open>dataavailable\<close> and its \<open>stop\<close> event; on an inactive recorder it does nothing.
\<close>

definition MediaRecorder_stop :: "nat \<Rightarrow> component \<Rightarrow> component" where
  "MediaRecorder_stop rid s =
     (if rid < length (recorders s) \<and> state (recorders s ! rid) = recording
      then s\<lparr>recorders := (recorders s)[rid := (recorders s ! rid)\<lparr>state := inactive\<rparr>],
             stop_pending := stop_pending s @ [rid]\<rparr>
      else s)"

text \<open>\<open>stream.getTracks().forEach(track => track.stop())\<close>.\<close>

definition stop_tracks :: "nat \<Rightarrow> component \<Rightarrow> component" where
  "stop_tracks st s = s\<lparr>tracks_live := (tracks_live s)[st := False]\<rparr>"

subsection \<open>The handlers the hook installs on a recorder (lines 32-42)\<close>

definition ondataavailable :: "BlobPart \<Rightarrow> component \<Rightarrow> component" where
  "ondataavailable e_data s = s\<lparr>chunks := chunks s @ [e_data]\<rparr>"

text \<open>The handler closes over the \<open>stream\<close> its recorder was built on.\<close>

definition onstop :: "nat \<Rightarrow> component \<Rightarrow> component" where
  "onstop st s =
     (let blob = Blob_new (chunks s) ''audio/webm'';
          s1 = s\<lparr>audioBlob := Some blob\<rparr>
      in stop_tracks st s1)"

subsection \<open>startRecording (lines 26-49)\<close>

text \<open>
  The function runs up to its \<open>await\<close> when it is called and resumes when the promise
  settles: with the stream inside the \<open>try\<close>, or with the rejection in the \<open>catch\<close>.
  Between the two any other handler may run.
\<close>

definition startRecording_call :: "component \<Rightarrow> component" where
  "startRecording_call s = getUserMedia s"

definition startRecording_resume :: "nat settled \<Rightarrow> component \<Rightarrow> component" where
  "startRecording_resume outcome s =
     (case outcome of
        Fulfilled st \<Rightarrow>
          (let (rid, s1) = MediaRecorder_new st s;
               s2 = s1\<lparr>mediaRecorder := Some rid\<rparr>;
               s3 = s2\<lparr>chunks := []\<rparr>;
               s4 = MediaRecorder_start rid s3
           in s4\<lparr>isRecording := True\<rparr>)
      | Rejected err \<Rightarrow>
          s\<lparr>console := console s @ [(''Error accessing microphone:'', err)]\<rparr>)"

subsection \<open>stopRecording (lines 51-56)\<close>

definition stopRecording :: "component \<Rightarrow> component" where
  "stopRecording s =
     (case mediaRecorder s of
        None \<Rightarrow> s
      | Some rid \<Rightarrow>
          if isRecording s
          then (MediaRecorder_stop rid s)\<lparr>isRecording := False\<rparr>
          else s)"


section \<open>AudioChatbot (lines 84-209)\<close>

subsection \<open>Calls into the browser and the HTTP client\<close>

text \<open>
  \<open>axios.post\<close> sends the request and returns a promise. The client rejects it on a
  network error and on a status outside 2xx; otherwise it fulfils it with the body,
  parsed when it is JSON and as raw text when it is not.
\<close>

definition axios_post :: "request \<Rightarrow> component \<Rightarrow> component" where
  "axios_post req s = s\<lparr>requests := requests s @ [req], in_flight := Suc (in_flight s)\<rparr>"

text \<open>
  \<open>speechSynthesis.speak\<close> queues the utterance and returns at once. The browser is
  taken to provide speech synthesis, so that building the utterance and queueing it do
  not throw.
\<close>

definition speechSynthesis_speak :: "string \<Rightarrow> component \<Rightarrow> component" where
  "speechSynthesis_speak txt s = s\<lparr>spoken := spoken s @ [txt]\<rparr>"

subsection \<open>handleSubmit (lines 102-135)\<close>

text \<open>
  As \<open>startRecording\<close>, the function is split at its \<open>await\<close>. The base URL of the
  endpoint comes from the environment and is left out of the request's record.
\<close>

definition handleSubmit_call :: "component \<Rightarrow> component" where
  "handleSubmit_call s =
     (case audioBlob s of
        None \<Rightarrow> s
      | Some blob \<Rightarrow>
          (let s1 = s\<lparr>isProcessing := True\<rparr>;
               s2 = s1\<lparr>error := None\<rparr>;
               formData = \<lparr>endpoint = ''/api/process-audio'', field = ''audio'',
                  payload = blob, content_type = ''multipart/form-data'',
                  withCredentials = True\<rparr>
           in axios_post formData s2))"

text \<open>The \<open>catch\<close> block, lines 129-131.\<close>

definition handleSubmit_catch :: "string \<Rightarrow> component \<Rightarrow> component" where
  "handleSubmit_catch err s =
     (let s1 = s\<lparr>console := console s @ [(''Error processing audio:'', err)]\<rparr>
      in s1\<lparr>error := Some ''Failed to process audio. Please try again.''\<rparr>)"

text \<open>
  The rest of the \<open>try\<close> runs when the promise is fulfilled. \<open>setResponse\<close> comes first,
  whatever the body is. The condition of line 124 reads \<open>audioPlayer.current\<close> and then,
  only if that is set, \<open>result.data.text_response\<close>: on a \<open>null\<close> body this read throws
  a \<open>TypeError\<close>, which the \<open>catch\<close> block handles after the response was overwritten;
  on a string it gives \<open>undefined\<close>. The \<open>finally\<close> block runs on every path.
\<close>

definition handleSubmit_resume :: "body option settled \<Rightarrow> component \<Rightarrow> component" where
  "handleSubmit_resume outcome s =
     (let s1 =
        (case outcome of
           Fulfilled data \<Rightarrow>
             (let s2 = s\<lparr>response := data\<rparr>
              in if audioPlayer s2 = None then s2
                 else
                   (case data of
                      None \<Rightarrow> handleSubmit_catch ''TypeError'' s2
                    | Some (Raw str) \<Rightarrow> s2
                    | Some (Parsed r) \<Rightarrow>
                        if text_response r \<noteq> []
                        then speechSynthesis_speak (text_response r) s2
                        else s2))
         | Rejected err \<Rightarrow> handleSubmit_catch err s)
      in s1\<lparr>isProcessing := False\<rparr>)"

subsection \<open>What is rendered\<close>

text \<open>
  The element tree, without class names and animation properties. A button carries its
  \<open>disabled\<close> flag and the handler given as \<open>onClick\<close>. A \<open>ComparisonGame\<close> node
  records the four properties line 74 passes, \<open>leftCount\<close>, \<open>rightCount\<close>,
  \<open>operator\<close> and \<open>result\<close>, in this order.
\<close>

datatype handler = On_startRecording | On_stopRecording | On_handleSubmit

datatype vnode =
    Text string
  | Num number
  | Element string "vnode list"
  | Button bool handler "vnode list"
  | ComparisonGame number number string result_value

text \<open>
  The names the module binds: those of its imports (lines 3-5) and of its own
  declarations. \<open>ComparisonGame\<close> occurs at line 74 only, is not among them, and is no
  global of the browser; reading it throws a \<open>ReferenceError\<close>.
\<close>

definition module_scope :: "string list" where
  "module_scope =
     [''React'', ''useState'', ''useRef'', ''useEffect'', ''motion'', ''AnimatePresence'',
      ''axios'', ''useAudioRecorder'', ''VisualMathOperation'', ''AudioChatbot'']"

text \<open>\<open>{result}\<close> prints a number or a string.\<close>

definition result_node :: "result_value \<Rightarrow> vnode" where
  "result_node r = (case r of Number_result n \<Rightarrow> Num n | String_result t \<Rightarrow> Text t)"

text \<open>Lines 61-82.\<close>

definition VisualMathOperation :: "MathOperation \<Rightarrow> js_error + vnode" where
  "VisualMathOperation operation =
     (if ''ComparisonGame'' \<in> set module_scope
      then Inr
        (Element ''div''
           [Element ''div''
              [Element ''span'' [Num (num1 operation)],
               Element ''span'' [Text (operator operation)],
               Element ''span'' [Num (num2 operation)],
               Element ''span'' [Text ''=''],
               Element ''span'' [result_node (result operation)]],
            ComparisonGame (num1 operation) (num2 operation) (operator operation)
              (result operation)])
      else Inl (ReferenceError ''ComparisonGame''))"

text \<open>Lines 145-154: the toggle.\<close>

definition record_button :: "component \<Rightarrow> vnode" where
  "record_button s =
     Button (isProcessing s)
       (if isRecording s then On_stopRecording else On_startRecording)
       [Text (if isRecording s then ''Stop Recording'' else ''Start Recording'')]"

text \<open>Lines 156-165: the send control, rendered or not.\<close>

definition send_button :: "component \<Rightarrow> vnode list" where
  "send_button s =
     (if audioBlob s \<noteq> None \<and> \<not> isRecording s
      then [Button (isProcessing s) On_handleSubmit [Text ''Send Question'']]
      else [])"

definition processing_indicator :: "component \<Rightarrow> vnode list" where
  "processing_indicator s =
     (if isProcessing s then [Element ''div'' [Text ''Processing your question...'']] else [])"

text \<open>Lines 180-188: \<open>error\<close> is rendered when it is a non-empty string.\<close>

definition error_message :: "component \<Rightarrow> vnode list" where
  "error_message s =
     (case error s of
        None \<Rightarrow> []
      | Some msg \<Rightarrow> if msg = [] then [] else [Element ''div'' [Text msg]])"

text \<open>
  Lines 190-205. The panel is there when \<open>response\<close> is truthy: an object, or a string
  that is not empty. A string has neither property, so its paragraph is empty and no
  operation is shown. An error thrown by \<open>VisualMathOperation\<close> is the outcome of the
  whole render.
\<close>

definition response_panel :: "component \<Rightarrow> js_error + vnode list" where
  "response_panel s =
     (case response s of
        None \<Rightarrow> Inr []
      | Some (Raw str) \<Rightarrow>
          if str = [] then Inr []
          else Inr
            [Element ''div''
               [Element ''div'' [Element ''h2'' [Text ''Response:''], Element ''p'' []]]]
      | Some (Parsed r) \<Rightarrow>
          (case math_operation r of
             None \<Rightarrow>
               Inr
                 [Element ''div''
                    [Element ''div''
                       [Element ''h2'' [Text ''Response:''],
                        Element ''p'' [Text (text_response r)]]]]
           | Some m \<Rightarrow>
               (case VisualMathOperation m of
                  Inl err \<Rightarrow> Inl err
                | Inr panel \<Rightarrow>
                    Inr
                      [Element ''div''
                         [Element ''div''
                            [Element ''h2'' [Text ''Response:''],
                             Element ''p'' [Text (text_response r)],
                             panel]]])))"

definition AudioChatbot :: "component \<Rightarrow> js_error + vnode" where
  "AudioChatbot s =
     (case response_panel s of
        Inl err \<Rightarrow> Inl err
      | Inr panel \<Rightarrow>
          Inr
            (Element ''div''
               [Element ''header''
                  [Element ''h1'' [Text ''Interactive Math Chatbot''],
                   Element ''p'' [Text ''Ask me any math question!'']],
                Element ''div''
                  ([record_button s]
                   @ send_button s
                   @ [Element ''AnimatePresence'' (processing_indicator s)]
                   @ error_message s
                   @ panel)]))"

text \<open>The page (page.tsx).\<close>

definition Home :: "component \<Rightarrow> js_error + vnode" where
  "Home s =
     (case AudioChatbot s of
        Inl err \<Rightarrow> Inl err
      | Inr tree \<Rightarrow> Inr (Element ''div'' [tree]))"

text \<open>Every use of the comparison widget in a tree, with the properties passed.\<close>

fun widget_calls :: "vnode \<Rightarrow> (number \<times> number \<times> string \<times> result_value) list" where
  "widget_calls (ComparisonGame l r opr res) = [(l, r, opr, res)]"
| "widget_calls (Element tag cs) = concat (map widget_calls cs)"
| "widget_calls (Button d h cs) = concat (map widget_calls cs)"
| "widget_calls (Text t) = []"
| "widget_calls (Num n) = []"

section \<open>Events\<close>

text \<open>
  Everything happens in callbacks of a single event loop: a click on one of the two
  controls, a promise of \<open>getUserMedia\<close> or of the POST settling, and a recorder
  delivering data or its \<open>stop\<close> event. Each callback sees the state of the latest
  render.
\<close>

definition invoke :: "handler \<Rightarrow> component \<Rightarrow> component" where
  "invoke h s =
     (case h of
        On_startRecording \<Rightarrow> startRecording_call s
      | On_stopRecording \<Rightarrow> stopRecording s
      | On_handleSubmit \<Rightarrow> handleSubmit_call s)"

text \<open>A click reaches the handler of a control that is rendered and not disabled.\<close>

fun click :: "vnode list \<Rightarrow> component \<Rightarrow> component" where
  "click [Button disabled h cs] s = (if disabled then s else invoke h s)"
| "click vs s = s"

text \<open>
  When the render throws, the tree is taken off the page and no control is left to
  click. Callbacks that were already pending still run.
\<close>

definition rendered :: "component \<Rightarrow> bool" where
  "rendered s = (case AudioChatbot s of Inl err \<Rightarrow> False | Inr tree \<Rightarrow> True)"

datatype event =
    Click_record
  | Click_send
  | Mic_granted
  | Mic_denied string
  | Data_available nat BlobPart
  | Recorder_stopped nat
  | Http_fulfilled "body option"
  | Http_rejected string

text \<open>
  A promise settles only if it is pending; a granted request comes with a fresh live
  stream. A recorder delivers data while it records and once more after \<open>stop()\<close>, and
  its \<open>stop\<close> event once after \<open>stop()\<close>.
\<close>

fun step :: "component \<Rightarrow> event \<Rightarrow> component" where
  "step s Click_record = (if rendered s then click [record_button s] s else s)"
| "step s Click_send = (if rendered s then click (send_button s) s else s)"
| "step s Mic_granted =
     (if gum_pending s = 0 then s
      else startRecording_resume (Fulfilled (length (tracks_live s)))
             (s\<lparr>gum_pending := gum_pending s - 1, tracks_live := tracks_live s @ [True]\<rparr>))"
| "step s (Mic_denied err) =
     (if gum_pending s = 0 then s
      else startRecording_resume (Rejected err) (s\<lparr>gum_pending := gum_pending s - 1\<rparr>))"
| "step s (Data_available rid d) =
     (if rid < length (recorders s)
         \<and> (state (recorders s ! rid) = recording \<or> rid \<in> set (stop_pending s))
      then ondataavailable d s else s)"
| "step s (Recorder_stopped rid) =
     (if rid < length (recorders s) \<and> rid \<in> set (stop_pending s)
      then onstop (stream (recorders s ! rid))
             (s\<lparr>stop_pending := remove1 rid (stop_pending s)\<rparr>)
      else s)"
| "step s (Http_fulfilled data) =
     (if in_flight s = 0 then s
      else handleSubmit_resume (Fulfilled data) (s\<lparr>in_flight := in_flight s - 1\<rparr>))"
| "step s (Http_rejected err) =
     (if in_flight s = 0 then s
      else handleSubmit_resume (Rejected err) (s\<lparr>in_flight := in_flight s - 1\<rparr>))"

fun run :: "component \<Rightarrow> event list \<Rightarrow> component" where
  "run s [] = s"
| "run s (e # es) = run (step s e) es"

section \<open>Concrete runs and predicates used below\<close>

text \<open>One recording from the first click to the stored blob.\<close>

definition blob_trace :: "event list" where
  "blob_trace =
     [Click_record, Mic_granted, Click_record, Data_available 0 ''ab'', Recorder_stopped 0]"

definition blob_ab :: Blob where
  "blob_ab = \<lparr>content = ''ab'', blob_type = ''audio/webm''\<rparr>"

definition answer_4 :: ApiResponse where
  "answer_4 = \<lparr>text_response = ''4'', math_operation =
     Some \<lparr>num1 = 2, operator = ''+'', num2 = 2, result = Number_result 4\<rparr>\<rparr>"

definition answer_text :: ApiResponse where
  "answer_text = \<lparr>text_response = ''hello'', math_operation = None\<rparr>"

definition answer_silent :: ApiResponse where
  "answer_silent = \<lparr>text_response = [], math_operation = None\<rparr>"

text \<open>A submission answered without a math operation, and a second one under way.\<close>

definition resend_trace :: "event list" where
  "resend_trace = blob_trace @ [Click_send, Http_fulfilled (Some (Parsed answer_text)), Click_send]"

text \<open>The second submission is rejected.\<close>

definition stale_trace :: "event list" where
  "stale_trace = resend_trace @ [Http_rejected ''Network Error'']"

text \<open>A submission answered with status 200 and a body that is not JSON.\<close>

definition malformed_trace :: "event list" where
  "malformed_trace = blob_trace @ [Click_send, Http_fulfilled (Some (Raw ''not json{''))]"

text \<open>A submission answered with a math operation.\<close>

definition operation_trace :: "event list" where
  "operation_trace = blob_trace @ [Click_send, Http_fulfilled (Some (Parsed answer_4))]"

text \<open>
  With a blob from an earlier recording: a click on the toggle, a click on the send
  control while the microphone request is still pending, then the request is granted.
\<close>

definition race_trace :: "event list" where
  "race_trace = blob_trace @ [Click_record, Click_send, Mic_granted]"


text \<open>
  Two clicks on the toggle before the microphone is granted: both calls of
  \<open>startRecording\<close> are pending, then both are granted.
\<close>

definition double_start_trace :: "event list" where
  "double_start_trace = [Click_record, Click_record, Mic_granted, Mic_granted]"

text \<open>Then the recording is stopped and the recorder behind the ref finishes.\<close>

definition double_stop_trace :: "event list" where
  "double_stop_trace =
     double_start_trace @ [Click_record, Data_available 1 ''ab'', Recorder_stopped 1]"

definition generic_error :: string where
  "generic_error = ''Failed to process audio. Please try again.''"

text \<open>The recorder behind the ref is recording a stream that exists.\<close>

definition current_recording :: "component \<Rightarrow> bool" where
  "current_recording s =
     (case mediaRecorder s of
        None \<Rightarrow> False
      | Some rid \<Rightarrow> rid < length (recorders s) \<and> state (recorders s ! rid) = recording
          \<and> stream (recorders s ! rid) < length (tracks_live s))"

definition recorder_ok :: "component \<Rightarrow> bool" where
  "recorder_ok s = (isRecording s \<longrightarrow> current_recording s)"

text \<open>
  While a request is processed nothing records and no microphone request is pending.
\<close>

definition no_overlap :: "component \<Rightarrow> bool" where
  "no_overlap s = (isProcessing s \<longrightarrow> \<not> isRecording s \<and> gum_pending s = 0)"

text \<open>A run in which the send control is never clicked while a microphone request is pending.\<close>

fun send_after_mic :: "component \<Rightarrow> event list \<Rightarrow> bool" where
  "send_after_mic s [] = True"
| "send_after_mic s (e # es) =
     ((e \<noteq> Click_send \<or> gum_pending s = 0) \<and> send_after_mic (step s e) es)"

section \<open>Basic facts\<close>

lemmas browser_defs = getUserMedia_def MediaRecorder_new_def MediaRecorder_start_def
  MediaRecorder_stop_def stop_tracks_def axios_post_def speechSynthesis_speak_def Blob_new_def

lemmas handler_defs = ondataavailable_def onstop_def startRecording_call_def
  startRecording_resume_def stopRecording_def handleSubmit_call_def handleSubmit_catch_def
  handleSubmit_resume_def invoke_def

lemmas view_defs = record_button_def send_button_def processing_indicator_def
  error_message_def response_panel_def AudioChatbot_def VisualMathOperation_def result_node_def

lemma run_append: "run s (es @ fs) = run (run s es) fs"
  by (induction es arbitrary: s) simp_all

lemma audioBlob_blob_trace: "audioBlob (run mounted blob_trace) = Some blob_ab"
  by code_simp

subsection \<open>The audio player is there from mount on\<close>

lemma step_audioPlayer: "audioPlayer (step s e) = audioPlayer s"
  by (cases e)
    (simp_all add: record_button_def send_button_def handler_defs browser_defs Let_def
      split: option.split settled.split body.split)

lemma run_audioPlayer: "audioPlayer (run s es) = audioPlayer s"
  by (induction es arbitrary: s) (simp_all add: step_audioPlayer)

lemma audioPlayer_reachable: "audioPlayer (run mounted es) \<noteq> None"
  by (simp add: run_audioPlayer mounted_def mount_def)

subsection \<open>The outcomes of a submission\<close>

lemma submit_call:
  assumes "audioBlob s = Some b"
  shows "isProcessing (handleSubmit_call s)"
    and "error (handleSubmit_call s) = None"
    and "response (handleSubmit_call s) = response s"
    and "audioPlayer (handleSubmit_call s) = audioPlayer s"
    and "in_flight (handleSubmit_call s) = Suc (in_flight s)"
  using assms by (simp_all add: handleSubmit_call_def axios_post_def Let_def)

lemma resume_rejected:
  "response (handleSubmit_resume (Rejected e) s) = response s"
  "error (handleSubmit_resume (Rejected e) s) = Some generic_error"
  by (simp_all add: handleSubmit_resume_def handleSubmit_catch_def generic_error_def Let_def)

lemma resume_null:
  assumes "audioPlayer s \<noteq> None"
  shows "response (handleSubmit_resume (Fulfilled None) s) = None"
    and "error (handleSubmit_resume (Fulfilled None) s) = Some generic_error"
  using assms
  by (auto simp: handleSubmit_resume_def handleSubmit_catch_def generic_error_def Let_def)

lemma resume_body:
  "response (handleSubmit_resume (Fulfilled (Some bd)) s) = Some bd"
  "error (handleSubmit_resume (Fulfilled (Some bd)) s) = error s"
  by (simp_all add: handleSubmit_resume_def speechSynthesis_speak_def Let_def
      split: body.split)

lemma resume_not_processing: "\<not> isProcessing (handleSubmit_resume outcome s)"
  by (simp add: handleSubmit_resume_def Let_def)

lemma step_settles:
  assumes "in_flight s = Suc n"
  shows "step s (Http_fulfilled data)
           = handleSubmit_resume (Fulfilled data) (s\<lparr>in_flight := n\<rparr>)"
    and "step s (Http_rejected e) = handleSubmit_resume (Rejected e) (s\<lparr>in_flight := n\<rparr>)"
  using assms by simp_all

subsection \<open>While \<open>isRecording\<close> holds, the ref points to a recording recorder\<close>

lemma recorder_ok_mounted: "recorder_ok mounted"
  by (simp add: recorder_ok_def mounted_def mount_def initial_def)

lemma recorder_ok_click_record: "recorder_ok s \<Longrightarrow> recorder_ok (step s Click_record)"
  by (auto simp: recorder_ok_def current_recording_def record_button_def invoke_def
      startRecording_call_def getUserMedia_def stopRecording_def MediaRecorder_stop_def
      split: option.splits)

lemma recorder_ok_click_send: "recorder_ok s \<Longrightarrow> recorder_ok (step s Click_send)"
  by (auto simp: recorder_ok_def current_recording_def send_button_def invoke_def
      handleSubmit_call_def axios_post_def split: option.splits)

lemma recorder_ok_mic_granted: "recorder_ok s \<Longrightarrow> recorder_ok (step s Mic_granted)"
  by (simp add: recorder_ok_def current_recording_def startRecording_resume_def
      MediaRecorder_new_def MediaRecorder_start_def Let_def)

lemma recorder_ok_mic_denied: "recorder_ok s \<Longrightarrow> recorder_ok (step s (Mic_denied err))"
  by (auto simp: recorder_ok_def current_recording_def startRecording_resume_def
      split: option.splits)

lemma recorder_ok_data: "recorder_ok s \<Longrightarrow> recorder_ok (step s (Data_available rid d))"
  by (auto simp: recorder_ok_def current_recording_def ondataavailable_def split: option.splits)

lemma recorder_ok_stopped: "recorder_ok s \<Longrightarrow> recorder_ok (step s (Recorder_stopped rid))"
  by (auto simp: recorder_ok_def current_recording_def onstop_def stop_tracks_def Let_def
      split: option.splits)

lemma recorder_ok_http:
  "recorder_ok s \<Longrightarrow> recorder_ok (step s (Http_fulfilled data))"
  "recorder_ok s \<Longrightarrow> recorder_ok (step s (Http_rejected err))"
  by (auto simp: recorder_ok_def current_recording_def handleSubmit_resume_def
      handleSubmit_catch_def speechSynthesis_speak_def Let_def
      split: option.splits body.splits)

lemma recorder_ok_step: "recorder_ok s \<Longrightarrow> recorder_ok (step s e)"
  by (cases e)
    (simp_all only: recorder_ok_click_record recorder_ok_click_send recorder_ok_mic_granted
      recorder_ok_mic_denied recorder_ok_data recorder_ok_stopped recorder_ok_http)

lemma recorder_ok_run: "recorder_ok s \<Longrightarrow> recorder_ok (run s es)"
  by (induction es arbitrary: s) (simp_all add: recorder_ok_step)

text \<open>
  Stopping the recorder behind the ref: its chunks become the blob and the tracks of its
  own stream are stopped. Nothing is said of the streams of other recorders.
\<close>

lemma stop_then_finalise:
  assumes rec: "isRecording s0" and cur: "mediaRecorder s0 = Some rid"
    and ok: "current_recording s0"
  shows "\<not> isRecording (stopRecording s0)"
    and "state (recorders (stopRecording s0) ! rid) = inactive"
    and "audioBlob (step (step (stopRecording s0) (Data_available rid d)) (Recorder_stopped rid))
           = Some \<lparr>content = concat (chunks s0 @ [d]), blob_type = ''audio/webm''\<rparr>"
    and "tracks_live (step (step (stopRecording s0) (Data_available rid d)) (Recorder_stopped rid))
           ! stream (recorders s0 ! rid) = False"
    and "\<not> isRecording (step (step (stopRecording s0) (Data_available rid d)) (Recorder_stopped rid))"
  using assms
  by (simp_all add: current_recording_def stopRecording_def MediaRecorder_stop_def
      ondataavailable_def onstop_def stop_tracks_def Blob_new_def Let_def)

lemma stopRecording_idle:
  "\<not> isRecording s \<or> mediaRecorder s = None \<Longrightarrow> stopRecording s = s"
  by (auto simp: stopRecording_def split: option.split)

lemma stopRecording_current:
  assumes "isRecording (run mounted evs)"
  shows "\<exists>rid. mediaRecorder (run mounted evs) = Some rid \<and> current_recording (run mounted evs)"
proof -
  have "recorder_ok (run mounted evs)"
    by (rule recorder_ok_run [OF recorder_ok_mounted])
  with assms have "current_recording (run mounted evs)"
    by (simp add: recorder_ok_def)
  then show ?thesis
    by (auto simp: current_recording_def split: option.splits)
qed

subsection \<open>Recording and processing exclude each other when sends wait for the microphone\<close>

lemma no_overlap_step:
  assumes "no_overlap s" and "e \<noteq> Click_send \<or> gum_pending s = 0"
  shows "no_overlap (step s e)"
  using assms
  by (cases e)
    (auto simp: no_overlap_def record_button_def send_button_def invoke_def
      startRecording_call_def getUserMedia_def stopRecording_def MediaRecorder_stop_def
      handleSubmit_call_def axios_post_def startRecording_resume_def MediaRecorder_new_def
      MediaRecorder_start_def ondataavailable_def onstop_def stop_tracks_def
      handleSubmit_resume_def handleSubmit_catch_def speechSynthesis_speak_def Let_def
      split: option.splits body.splits)

lemma no_overlap_run:
  "no_overlap s \<Longrightarrow> send_after_mic s es \<Longrightarrow> no_overlap (run s es)"
  by (induction es arbitrary: s) (simp_all add: no_overlap_step)

lemma no_overlap_mounted: "no_overlap mounted"
  by (simp add: no_overlap_def mounted_def mount_def initial_def)

subsection \<open>The render and the comparison widget\<close>

lemma ComparisonGame_unbound: "''ComparisonGame'' \<notin> set module_scope"
  by (simp add: module_scope_def)

lemma VisualMathOperation_throws:
  "VisualMathOperation m = Inl (ReferenceError ''ComparisonGame'')"
  by (simp add: VisualMathOperation_def ComparisonGame_unbound)

lemma render_with_operation:
  "response s = Some (Parsed r) \<Longrightarrow> math_operation r = Some m \<Longrightarrow>
     AudioChatbot s = Inl (ReferenceError ''ComparisonGame'')"
  by (simp add: AudioChatbot_def response_panel_def VisualMathOperation_throws)

lemma widgets_send_button: "concat (map widget_calls (send_button s)) = []"
  by (simp add: send_button_def)

lemma widgets_processing_indicator: "concat (map widget_calls (processing_indicator s)) = []"
  by (simp add: processing_indicator_def)

lemma widgets_error_message: "concat (map widget_calls (error_message s)) = []"
  by (cases "error s") (auto simp: error_message_def)

lemma render_without_operation:
  "response s = Some (Parsed r) \<Longrightarrow> math_operation r = None \<Longrightarrow>
     \<exists>tree. AudioChatbot s = Inr tree \<and> widget_calls tree = []"
  by (simp add: AudioChatbot_def response_panel_def record_button_def widgets_send_button
      widgets_processing_indicator widgets_error_message)

text \<open>What is written to the console is not rendered.\<close>

lemma render_console: "AudioChatbot (s\<lparr>console := c\<rparr>) = AudioChatbot s"
  by (simp add: AudioChatbot_def response_panel_def record_button_def send_button_def
      processing_indicator_def error_message_def cong: sum.case_cong)

section \<open>The claims\<close>

subsection \<open>C1: response and error after a submission\<close>

text \<open>
  Against claim C1 as stated: \<open>handleSubmit\<close> does not clear the stored response. A
  first submission is answered without a math operation, so the component stays on the
  page, and the send control is clicked again: while the second request is under way the
  response of the first is still stored, and when the request is rejected that response
  stands next to the error.
\<close>

theorem stale_response_beside_error:
  "response (run mounted resend_trace) = Some (Parsed answer_text) \<and>
   isProcessing (run mounted resend_trace) \<and>
   length (requests (run mounted resend_trace)) = 2 \<and>
   response (run mounted stale_trace) = Some (Parsed answer_text) \<and>
   error (run mounted stale_trace) = Some generic_error"
  by code_simp

text \<open>
  Claim C1, amended: with a captured blob, \<open>handleSubmit\<close> clears the stored error, and
  only the error, before it issues the request; the stored response is left as it is.
  When the request is rejected, the error is the generic message and the response is
  the one stored before the submission. When the request is fulfilled with a body that
  is not null, the response is that body and the error is null. When it is fulfilled
  with the body null, the response is null and the error is the generic message. The
  browser is one that provides speech synthesis.
\<close>

theorem handleSubmit_clears_error_only:
  "audioBlob (run mounted evs) = Some b \<Longrightarrow>
     error (handleSubmit_call (run mounted evs)) = None \<and>
     response (handleSubmit_call (run mounted evs)) = response (run mounted evs) \<and>
     response (handleSubmit_resume (Rejected e) (handleSubmit_call (run mounted evs)))
       = response (run mounted evs) \<and>
     error (handleSubmit_resume (Rejected e) (handleSubmit_call (run mounted evs)))
       = Some generic_error \<and>
     response (handleSubmit_resume (Fulfilled (Some bd)) (handleSubmit_call (run mounted evs)))
       = Some bd \<and>
     error (handleSubmit_resume (Fulfilled (Some bd)) (handleSubmit_call (run mounted evs)))
       = None \<and>
     response (handleSubmit_resume (Fulfilled None) (handleSubmit_call (run mounted evs)))
       = None \<and>
     error (handleSubmit_resume (Fulfilled None) (handleSubmit_call (run mounted evs)))
       = Some generic_error"
proof -
  assume blob: "audioBlob (run mounted evs) = Some b"
  let ?s = "run mounted evs"
  let ?c = "handleSubmit_call ?s"
  have player: "audioPlayer ?c \<noteq> None"
    by (simp add: submit_call(4) [OF blob] audioPlayer_reachable)
  note call = submit_call(2,3) [OF blob]
  show ?thesis
    by (simp add: call resume_rejected resume_body resume_null [OF player])
qed

theorem handleSubmit_clears_error_only_witness:
  "audioBlob (run mounted blob_trace) = Some blob_ab \<and>
   error (handleSubmit_call (run mounted blob_trace)) = None \<and>
   response (handleSubmit_resume (Rejected ''Network Error'')
       (handleSubmit_call (run mounted blob_trace))) = response (run mounted blob_trace) \<and>
   error (handleSubmit_resume (Rejected ''Network Error'')
       (handleSubmit_call (run mounted blob_trace))) = Some generic_error \<and>
   response (handleSubmit_resume (Fulfilled (Some (Parsed answer_text)))
       (handleSubmit_call (run mounted blob_trace))) = Some (Parsed answer_text) \<and>
   error (handleSubmit_resume (Fulfilled (Some (Parsed answer_text)))
       (handleSubmit_call (run mounted blob_trace))) = None \<and>
   response (handleSubmit_resume (Fulfilled None)
       (handleSubmit_call (run mounted blob_trace))) = None \<and>
   error (handleSubmit_resume (Fulfilled None)
       (handleSubmit_call (run mounted blob_trace))) = Some generic_error"
  using audioBlob_blob_trace
    handleSubmit_clears_error_only [OF audioBlob_blob_trace, where e = "''Network Error''"
      and bd = "Parsed answer_text"]
  by blast

subsection \<open>C2: recording and processing at the same time\<close>

text \<open>
  Claim C2 says that at most one of \<open>isRecording\<close> and \<open>isProcessing\<close> holds in every
  reachable state. The toggle is disabled while a request is processed and the send
  control is hidden while recording, but a microphone request made before the send click
  is granted after it: at the end of \<open>race_trace\<close>, where each click hits a control that
  is rendered and enabled, both flags hold.
\<close>

theorem recording_during_processing:
  "isRecording (run mounted race_trace) \<and> isProcessing (run mounted race_trace)"
  by code_simp

subsection \<open>C3: a new recording and the blob of the previous one\<close>




subsection \<open>C4: the processing flag and the stored error\<close>

text \<open>
  Against claim C4 as stated: the component does not inspect the body of a fulfilled
  request. An answer with status 200 whose body is not JSON is stored as the response,
  and no error is stored.
\<close>

theorem malformed_body_stores_no_error:
  "response (run mounted malformed_trace) = Some (Raw ''not json{'') \<and>
   error (run mounted malformed_trace) = None \<and>
   \<not> isProcessing (run mounted malformed_trace)"
  by code_simp

text \<open>
  Claim C4, amended: with a captured blob, \<open>handleSubmit\<close> sets \<open>isProcessing\<close> before
  the request; when the request settles, fulfilled or rejected, \<open>isProcessing\<close> is
  false afterwards, whatever happened in between. When the request is rejected (a
  network error, a status outside 2xx) or fulfilled with the body null, the stored error
  is the one generic message. Any other body of a fulfilled request, well-formed or
  not, is stored as the response and no error is stored. The browser is one that
  provides speech synthesis.
\<close>

theorem handleSubmit_processing_flag:
  "audioBlob (run mounted evs) = Some b \<Longrightarrow>
     isProcessing (handleSubmit_call (run mounted evs)) \<and>
     \<not> isProcessing (step (handleSubmit_call (run mounted evs)) (Http_fulfilled data)) \<and>
     \<not> isProcessing (step (handleSubmit_call (run mounted evs)) (Http_rejected e)) \<and>
     \<not> isProcessing (handleSubmit_resume outcome s') \<and>
     error (step (handleSubmit_call (run mounted evs)) (Http_rejected e)) = Some generic_error \<and>
     error (handleSubmit_resume (Rejected e) s') = Some generic_error \<and>
     error (step (handleSubmit_call (run mounted evs)) (Http_fulfilled None))
       = Some generic_error \<and>
     error (step (handleSubmit_call (run mounted evs)) (Http_fulfilled (Some bd))) = None \<and>
     response (step (handleSubmit_call (run mounted evs)) (Http_fulfilled (Some bd))) = Some bd"
proof -
  assume blob: "audioBlob (run mounted evs) = Some b"
  let ?s = "run mounted evs"
  let ?c = "handleSubmit_call ?s"
  let ?d = "?c\<lparr>in_flight := in_flight ?s\<rparr>"
  note settle = step_settles [OF submit_call(5) [OF blob]]
  have player: "audioPlayer ?d \<noteq> None"
    by (simp add: submit_call(4) [OF blob] audioPlayer_reachable)
  have err: "error ?d = None"
    by (simp add: submit_call(2) [OF blob])
  have fulfilled: "step ?c (Http_fulfilled body) = handleSubmit_resume (Fulfilled body) ?d"
    for body
    by (rule settle(1))
  have rejected: "step ?c (Http_rejected e) = handleSubmit_resume (Rejected e) ?d"
    by (rule settle(2))
  show ?thesis
    unfolding fulfilled rejected
    by (simp add: submit_call(1) [OF blob] resume_not_processing resume_rejected
        resume_body err resume_null [OF player])
qed

theorem handleSubmit_processing_flag_witness:
  "audioBlob (run mounted blob_trace) = Some blob_ab \<and>
   isProcessing (handleSubmit_call (run mounted blob_trace)) \<and>
   \<not> isProcessing (step (handleSubmit_call (run mounted blob_trace))
       (Http_fulfilled (Some (Parsed answer_text)))) \<and>
   \<not> isProcessing (step (handleSubmit_call (run mounted blob_trace)) (Http_rejected ''timeout'')) \<and>
   error (step (handleSubmit_call (run mounted blob_trace)) (Http_rejected ''timeout''))
     = Some generic_error \<and>
   error (step (handleSubmit_call (run mounted blob_trace)) (Http_fulfilled None))
     = Some generic_error \<and>
   error (step (handleSubmit_call (run mounted blob_trace))
       (Http_fulfilled (Some (Raw ''not json{'')))) = None \<and>
   response (step (handleSubmit_call (run mounted blob_trace))
       (Http_fulfilled (Some (Raw ''not json{'')))) = Some (Raw ''not json{'')"
  using audioBlob_blob_trace
    handleSubmit_processing_flag [OF audioBlob_blob_trace,
      where data = "Some (Parsed answer_text)" and e = "''timeout''"
      and outcome = "Rejected ''timeout''" and s' = mounted and bd = "Raw ''not json{''"]
  by blast

subsection \<open>C5: stopRecording and the microphone\<close>

text \<open>
  Claim C5 says that \<open>stopRecording\<close>, when a recording is active, releases the
  microphone, as the comment of line 40 does. After two clicks on the toggle before
  the microphone is granted, \<open>isRecording\<close> holds and two streams are live, each with
  its recorder, while the ref holds the second recorder only. The click that stops the
  recording stops that recorder; when it has finished, \<open>isRecording\<close> is false and the
  blob is stored, but the first stream is still live and its recorder still records:
  no control is left that would stop it.
\<close>

theorem orphaned_stream_stays_live:
  "isRecording (run mounted double_start_trace) \<and>
   tracks_live (run mounted double_start_trace) = [True, True] \<and>
   mediaRecorder (run mounted double_start_trace) = Some 1 \<and>
   \<not> isRecording (run mounted double_stop_trace) \<and>
   audioBlob (run mounted double_stop_trace) = Some blob_ab \<and>
   stop_pending (run mounted double_stop_trace) = [] \<and>
   tracks_live (run mounted double_stop_trace) = [True, False] \<and>
   recorders (run mounted double_stop_trace)
     = [\<lparr>stream = 0, state = recording\<rparr>, \<lparr>stream = 1, state = inactive\<rparr>]"
  by code_simp

subsection \<open>C6: the microphone is refused\<close>

text \<open>
  Claim C6: when the microphone request of \<open>startRecording\<close> is rejected, the error is
  written to the console and nothing else changes: \<open>isRecording\<close>, the captured blob,
  the recorder ref, the chunk buffer and the displayed error are as before the call, and
  what is rendered is the same.
\<close>

theorem startRecording_denied:
  "step (invoke On_startRecording s) (Mic_denied e)
     = s\<lparr>console := console s @ [(''Error accessing microphone:'', e)]\<rparr> \<and>
   startRecording_resume (Rejected e) s'
     = s'\<lparr>console := console s' @ [(''Error accessing microphone:'', e)]\<rparr> \<and>
   isRecording (startRecording_resume (Rejected e) s') = isRecording s' \<and>
   audioBlob (startRecording_resume (Rejected e) s') = audioBlob s' \<and>
   error (startRecording_resume (Rejected e) s') = error s' \<and>
   AudioChatbot (startRecording_resume (Rejected e) s') = AudioChatbot s'"
  by (simp add: invoke_def startRecording_call_def getUserMedia_def startRecording_resume_def
      render_console)

theorem startRecording_denied_witness:
  "step (invoke On_startRecording mounted) (Mic_denied ''NotAllowedError'')
     = mounted\<lparr>console := [(''Error accessing microphone:'', ''NotAllowedError'')]\<rparr> \<and>
   \<not> isRecording (step (invoke On_startRecording mounted) (Mic_denied ''NotAllowedError'')) \<and>
   audioBlob (step (invoke On_startRecording mounted) (Mic_denied ''NotAllowedError'')) = None \<and>
   error (step (invoke On_startRecording mounted) (Mic_denied ''NotAllowedError'')) = None"
proof -
  have c: "console mounted = []"
    by code_simp
  have r: "\<not> isRecording mounted" "audioBlob mounted = None" "error mounted = None"
    by code_simp+
  show ?thesis
    using startRecording_denied [of mounted "''NotAllowedError''" mounted] c r
    by simp
qed

subsection \<open>C7: a successful submission\<close>

text \<open>
  Claim C7: when the request is fulfilled with a response object, in any reachable
  state, the parsed response is stored; the text response is passed to speech synthesis,
  once and as it is, if it is not empty, and nothing is spoken if it is empty; and
  \<open>isProcessing\<close> is false in the state the same callback leaves.
\<close>

theorem success_stores_and_speaks:
  "response (handleSubmit_resume (Fulfilled (Some (Parsed d))) (run mounted evs))
     = Some (Parsed d) \<and>
   spoken (handleSubmit_resume (Fulfilled (Some (Parsed d))) (run mounted evs))
     = spoken (run mounted evs) @ (if text_response d = [] then [] else [text_response d]) \<and>
   \<not> isProcessing (handleSubmit_resume (Fulfilled (Some (Parsed d))) (run mounted evs))"
proof -
  have "audioPlayer (run mounted evs) \<noteq> None"
    by (rule audioPlayer_reachable)
  then show ?thesis
    by (auto simp: handleSubmit_resume_def speechSynthesis_speak_def Let_def)
qed

theorem success_stores_and_speaks_witness:
  "spoken (handleSubmit_resume (Fulfilled (Some (Parsed answer_text)))
       (run mounted (blob_trace @ [Click_send]))) = [''hello''] \<and>
   spoken (handleSubmit_resume (Fulfilled (Some (Parsed answer_silent)))
       (run mounted (blob_trace @ [Click_send]))) = [] \<and>
   response (handleSubmit_resume (Fulfilled (Some (Parsed answer_text)))
       (run mounted (blob_trace @ [Click_send]))) = Some (Parsed answer_text) \<and>
   \<not> isProcessing (handleSubmit_resume (Fulfilled (Some (Parsed answer_text)))
       (run mounted (blob_trace @ [Click_send])))"
proof -
  have s: "spoken (run mounted (blob_trace @ [Click_send])) = []"
    by code_simp
  show ?thesis
    using success_stores_and_speaks [of answer_text "blob_trace @ [Click_send]"]
      success_stores_and_speaks [of answer_silent "blob_trace @ [Click_send]"]
    by (simp add: s answer_text_def answer_silent_def)
qed

subsection \<open>C8: the comparison panel\<close>

text \<open>
  Claim C8 says that the comparison panel is rendered exactly when the response has a
  math operation, with the widget given \<open>num1\<close>, \<open>num2\<close>, \<open>operator\<close> and \<open>result\<close>.
  Line 74 passes these four, but the name \<open>ComparisonGame\<close> is bound nowhere: once a
  submission is answered with a math operation, the render throws a \<open>ReferenceError\<close>
  and neither the panel nor anything else of the component is on the page.
\<close>

theorem comparison_panel_throws:
  "response (run mounted operation_trace) = Some (Parsed answer_4) \<and>
   math_operation answer_4
     = Some \<lparr>num1 = 2, operator = ''+'', num2 = 2, result = Number_result 4\<rparr> \<and>
   AudioChatbot (run mounted operation_trace) = Inl (ReferenceError ''ComparisonGame'') \<and>
   \<not> rendered (run mounted operation_trace)"
  by code_simp

subsection \<open>C9: a second click while processing\<close>

text \<open>
  Claim C9: in every state with \<open>isProcessing\<close> true, a click on the send control
  changes nothing: the control is disabled (or not rendered), so no handler runs, no
  request is added and none becomes pending.
\<close>

theorem send_disabled_while_processing:
  "isProcessing s \<Longrightarrow>
     step s Click_send = s \<and>
     requests (step s Click_send) = requests s \<and>
     in_flight (step s Click_send) = in_flight s"
  by (simp add: send_button_def)

theorem send_disabled_while_processing_witness:
  "isProcessing (run mounted (blob_trace @ [Click_send])) \<and>
   length (requests (run mounted (blob_trace @ [Click_send]))) = 1 \<and>
   step (run mounted (blob_trace @ [Click_send])) Click_send
     = run mounted (blob_trace @ [Click_send]) \<and>
   length (requests (step (run mounted (blob_trace @ [Click_send])) Click_send)) = 1"
proof -
  have p: "isProcessing (run mounted (blob_trace @ [Click_send]))"
    by code_simp
  have n: "length (requests (run mounted (blob_trace @ [Click_send]))) = 1"
    by code_simp
  show ?thesis
    using p n send_disabled_while_processing [OF p] by simp
qed

subsection \<open>C10: submitting without a blob\<close>

text \<open>
  Claim C10: without a captured blob, \<open>handleSubmit\<close> returns the state it was called
  in: \<open>isProcessing\<close>, the error, the response and the requests issued are unchanged,
  and no request is pending because of the call.
\<close>

theorem handleSubmit_without_blob:
  "audioBlob s = None \<Longrightarrow>
     handleSubmit_call s = s \<and> invoke On_handleSubmit s = s \<and>
     isProcessing (handleSubmit_call s) = isProcessing s \<and>
     requests (handleSubmit_call s) = requests s \<and>
     in_flight (handleSubmit_call s) = in_flight s \<and>
     error (handleSubmit_call s) = error s \<and>
     response (handleSubmit_call s) = response s"
  by (simp add: handleSubmit_call_def invoke_def)

theorem handleSubmit_without_blob_witness:
  "audioBlob mounted = None \<and> handleSubmit_call mounted = mounted \<and>
   \<not> isProcessing (handleSubmit_call mounted) \<and> requests (handleSubmit_call mounted) = []"
proof -
  have a: "audioBlob mounted = None"
    by code_simp
  have b: "\<not> isProcessing mounted" "requests mounted = []"
    by code_simp+
  show ?thesis
    using a b handleSubmit_without_blob [OF a] by simp
qed

end
